theory Spec2Isabelle
  imports Complex_Main "HOL-Library.Word"
begin

section \<open>Values of the template virtual machine\<close>

text \<open>
  The registers, the operand stack and the variable bag of the VM hold Go values of type
  \<^verbatim>\<open>interface {}\<close>. The model keeps the dynamic types the handlers distinguish: nil,
  signed and unsigned integers (64 bits, arithmetic wraps), floats, strings, booleans,
  the distinct type \<^verbatim>\<open>rawString\<close>, slices, struct values with their exported fields, and
  a \<^verbatim>\<open>reflect.Value\<close> stored in an interface (\<^verbatim>\<open>txForStart\<close> stores one in a local slot).
  Floating-point numbers are kept abstract: the type \<open>'f\<close> and its operations are supplied
  by the host record below. Go's \<^verbatim>\<open>int\<close> used for indices, marks and the program counter
  is a mathematical integer. Host pointers are outside this value universe.
\<close>

datatype 'f val =
    VNil
  | VInt "64 word"
  | VUint "64 word"
  | VFloat 'f
  | VStr string
  | VBool bool
  | VRaw string
  | VSeq "'f val list"
  | VRecord string "(string \<times> 'f val) list"
  | VReflect "'f val"

text \<open>The dynamic type and the kind that package \<^verbatim>\<open>reflect\<close> reports for a value.\<close>

datatype rtype =
    TInt | TUint | TFloat | TString | TBool | TRawString | TSlice | TStruct string
  | TReflectValue

datatype kind =
    Invalid | KBool | KInt | KUint | KFloat | KString | KArray | KSlice | KStruct | KPtr
  | KInterface

text \<open>
  An aborted handler. The first group are run-time panics of Go itself; \<open>NotInSpec\<close>
  marks a call into code of the repository that is not among the source files, at an
  input for which the specification gives no behaviour.
\<close>

datatype error =
    ReflectZeroValue
  | ReflectKind
  | DivideByZero
  | Uncomparable
  | TypeAssertion
  | MakeSliceLen
  | IndexOutOfRange
  | HostPanic
  | PcOutOfRange
  | NotInSpec

definition ethen :: "error + 'a \<Rightarrow> ('a \<Rightarrow> error + 'b) \<Rightarrow> error + 'b" where
  "ethen r k = (case r of Inl e \<Rightarrow> Inl e | Inr x \<Rightarrow> k x)"

text \<open>The numeric operands that \<^verbatim>\<open>alignTypesForArithmetic\<close> hands to the arithmetic handlers.\<close>

datatype 'f num = NInt "64 word" | NUint "64 word" | NFloat 'f

text \<open>
  A method found by \<^verbatim>\<open>Type().MethodByName\<close>: the number of inputs of its function (the
  receiver counts), the number of outputs, and the call itself, which may panic.
\<close>

record 'f go_method =
  m_NumIn :: nat
  m_NumOut :: nat
  m_Call :: "'f val list \<Rightarrow> error + 'f val list"

text \<open>
  What the host language supplies: floating-point arithmetic and formatting, number
  parsing, the rendering of structured values, upper-casing of a non-ASCII first rune,
  the methods of the host's types, and equality of structured values.
\<close>

record 'f host =
  float_of_int :: "64 word \<Rightarrow> 'f"
  float_of_uint :: "64 word \<Rightarrow> 'f"
  float_add :: "'f \<Rightarrow> 'f \<Rightarrow> 'f"
  float_sub :: "'f \<Rightarrow> 'f \<Rightarrow> 'f"
  float_mul :: "'f \<Rightarrow> 'f \<Rightarrow> 'f"
  float_div :: "'f \<Rightarrow> 'f \<Rightarrow> 'f"
  float_eq :: "'f \<Rightarrow> 'f \<Rightarrow> bool"
  float_is_zero :: "'f \<Rightarrow> bool"
  float_format :: "'f \<Rightarrow> string"
  parse_number :: "string \<Rightarrow> 'f num option"
  host_string :: "'f val \<Rightarrow> string"
  upper_rune :: "string \<Rightarrow> string"
  host_methods :: "rtype \<Rightarrow> string \<Rightarrow> 'f go_method option"
  host_eq :: "'f val \<Rightarrow> 'f val \<Rightarrow> error + bool"

subsection \<open>Reflection\<close>

text \<open>
  \<^verbatim>\<open>reflect.ValueOf(x)\<close> is represented by \<open>x\<close> itself, \<open>VNil\<close> being the zero Value.
  \<^verbatim>\<open>Type()\<close> panics on the zero Value; \<^verbatim>\<open>Kind()\<close> returns \<^verbatim>\<open>Invalid\<close> there.
  The kind of \<^verbatim>\<open>rawString\<close> is \<^verbatim>\<open>String\<close>, and \<^verbatim>\<open>reflect.Value\<close> is itself a struct.
\<close>

fun dyn_type :: "'f val \<Rightarrow> rtype option" where
  "dyn_type VNil = None"
| "dyn_type (VInt _) = Some TInt"
| "dyn_type (VUint _) = Some TUint"
| "dyn_type (VFloat _) = Some TFloat"
| "dyn_type (VStr _) = Some TString"
| "dyn_type (VBool _) = Some TBool"
| "dyn_type (VRaw _) = Some TRawString"
| "dyn_type (VSeq _) = Some TSlice"
| "dyn_type (VRecord tn _) = Some (TStruct tn)"
| "dyn_type (VReflect _) = Some TReflectValue"

definition reflect_Type :: "'f val \<Rightarrow> error + rtype" where
  "reflect_Type v = (case dyn_type v of None \<Rightarrow> Inl ReflectZeroValue | Some t \<Rightarrow> Inr t)"

fun reflect_Kind :: "'f val \<Rightarrow> kind" where
  "reflect_Kind VNil = Invalid"
| "reflect_Kind (VInt _) = KInt"
| "reflect_Kind (VUint _) = KUint"
| "reflect_Kind (VFloat _) = KFloat"
| "reflect_Kind (VStr _) = KString"
| "reflect_Kind (VBool _) = KBool"
| "reflect_Kind (VRaw _) = KString"
| "reflect_Kind (VSeq _) = KSlice"
| "reflect_Kind (VRecord _ _) = KStruct"
| "reflect_Kind (VReflect _) = KStruct"

definition rawStringType :: rtype where
  "rawStringType = TRawString"

subsection \<open>Strings\<close>

fun dec_nat :: "nat \<Rightarrow> string" where
  "dec_nat n =
     (if n < 10 then [char_of (48 + n)] else dec_nat (n div 10) @ [char_of (48 + n mod 10)])"

declare dec_nat.simps [simp del]

definition dec_int :: "int \<Rightarrow> string" where
  "dec_int i = (if i < 0 then CHR ''-'' # dec_nat (nat (- i)) else dec_nat (nat i))"

text \<open>
  \<^verbatim>\<open>html.EscapeString\<close> of Go's standard library: the five characters
  \<^verbatim>\<open>& ' < > "\<close> are replaced, every other byte is copied.
\<close>

definition html_escape_char :: "char \<Rightarrow> string" where
  "html_escape_char c =
     (if c = CHR ''&'' then ''&amp;''
      else if c = CHR 0x27 then ''&#39;''
      else if c = CHR ''<'' then ''&lt;''
      else if c = CHR ''>'' then ''&gt;''
      else if c = CHR 0x22 then ''&#34;''
      else [c])"

definition html_EscapeString :: "string \<Rightarrow> string" where
  "html_EscapeString s = concat (map html_escape_char s)"




text \<open>
  Modelled from the spec: \<^verbatim>\<open>interfaceToString\<close> is not among the source files. Section 4.1:
  nil is the empty string, a raw string its bytes, a string itself, a boolean
  \<^verbatim>\<open>true\<close> or \<^verbatim>\<open>false\<close>, an integer its decimal form, a float the host's shortest
  representation, and a structured value what the host renders for it.
\<close>

fun interfaceToString :: "'f host \<Rightarrow> 'f val \<Rightarrow> string" where
  "interfaceToString h VNil = []"
| "interfaceToString h (VRaw s) = s"
| "interfaceToString h (VStr s) = s"
| "interfaceToString h (VBool b) = (if b then ''true'' else ''false'')"
| "interfaceToString h (VInt n) = dec_int (sint n)"
| "interfaceToString h (VUint n) = dec_nat (unat n)"
| "interfaceToString h (VFloat x) = float_format h x"
| "interfaceToString h v = host_string h v"


section \<open>Stack and Frame\<close>

text \<open>
  Modelled from the spec: the type \<^verbatim>\<open>Stack\<close> is not among the source files (only its test
  is). Section 4.2: an array of values with a tip cursor; \<^verbatim>\<open>Push\<close> writes at the tip
  and increments it, doubling the array when it is full; \<^verbatim>\<open>Get\<close> and \<^verbatim>\<open>Set\<close> index
  absolutely; an out-of-range \<^verbatim>\<open>Get\<close> is an error, which callers read as nil. The
  specification says nothing about an out-of-range \<^verbatim>\<open>Set\<close> or a \<^verbatim>\<open>Push\<close> that finds no
  room after doubling.
\<close>

record 'f stack =
  data :: "'f val list"
  cur :: int

definition stack_Cur :: "'f stack \<Rightarrow> int" where
  "stack_Cur s = cur s"

definition stack_Get :: "'f stack \<Rightarrow> int \<Rightarrow> error + 'f val" where
  "stack_Get s i =
     (if 0 \<le> i \<and> i < int (length (data s)) then Inr (data s ! nat i)
      else Inl IndexOutOfRange)"

definition stack_Get_nil :: "'f stack \<Rightarrow> int \<Rightarrow> 'f val" where
  "stack_Get_nil s i = (case stack_Get s i of Inl e \<Rightarrow> VNil | Inr v \<Rightarrow> v)"

definition stack_Set :: "'f stack \<Rightarrow> int \<Rightarrow> 'f val \<Rightarrow> error + 'f stack" where
  "stack_Set s i v =
     (if 0 \<le> i \<and> i < int (length (data s)) then Inr (s\<lparr>data := (data s)[nat i := v]\<rparr>)
      else Inl NotInSpec)"

definition stack_Push :: "'f stack \<Rightarrow> 'f val \<Rightarrow> error + 'f stack" where
  "stack_Push s v =
     (let d = (if cur s < int (length (data s)) then data s
               else data s @ replicate (length (data s)) VNil)
      in if 0 \<le> cur s \<and> cur s < int (length d)
         then Inr \<lparr>data = d[nat (cur s) := v], cur = cur s + 1\<rparr>
         else Inl NotInSpec)"

text \<open>
  \<^verbatim>\<open>Frame\<close> of \<^verbatim>\<open>util/frame.go\<close>. The field \<^verbatim>\<open>stack\<close> is a pointer to the stack the frame
  shares with the state; the model passes that stack to each operation and returns it
  when it is written. The debugging output of \<^verbatim>\<open>GetLvar\<close> and \<^verbatim>\<open>SetLvar\<close> goes to the
  process's standard output and is not part of the model.
\<close>

record frame =
  name :: string
  mark :: int

definition NewFrame :: frame where
  "NewFrame = \<lparr>name = [], mark = 0\<rparr>"

definition SetMark :: "frame \<Rightarrow> int \<Rightarrow> frame" where
  "SetMark f v = f\<lparr>mark := v\<rparr>"

definition Mark :: "frame \<Rightarrow> int" where
  "Mark f = mark f"

definition DeclareVar :: "frame \<Rightarrow> 'f stack \<Rightarrow> 'f val \<Rightarrow> error + ('f stack \<times> int)" where
  "DeclareVar f s v = ethen (stack_Push s v) (\<lambda>s'. Inr (s', stack_Cur s'))"

definition GetLvar :: "frame \<Rightarrow> 'f stack \<Rightarrow> int \<Rightarrow> 'f val" where
  "GetLvar f s i = (case stack_Get s (i - mark f) of Inl err \<Rightarrow> VNil | Inr v \<Rightarrow> v)"

definition SetLvar :: "frame \<Rightarrow> 'f stack \<Rightarrow> int \<Rightarrow> 'f val \<Rightarrow> error + 'f stack" where
  "SetLvar f s i v = stack_Set s (i - mark f) v"

definition LastLvarIndex :: "frame \<Rightarrow> 'f stack \<Rightarrow> int" where
  "LastLvarIndex f s = stack_Cur s"

section \<open>State\<close>

text \<open>
  Modelled from the spec: the type \<^verbatim>\<open>State\<close>, its operations and the type of an
  operation are not among the source files. Sections 3 and 4.4: two registers, the operand
  stack, a stack of marks, a stack of frames, the output buffer, the variable bag, the
  warning sink, the program counter and the bytecode. \<^verbatim>\<open>Advance\<close> adds one to the
  program counter and \<^verbatim>\<open>AdvanceBy\<close> adds its argument; \<^verbatim>\<open>CurrentOp\<close> is the operation
  at the program counter (a program counter out of range is fatal, section 7);
  \<^verbatim>\<open>CurrentFrame\<close> is the top of the frame stack; \<^verbatim>\<open>Pushmark\<close> pushes the stack's tip,
  \<^verbatim>\<open>Popmark\<close> pops and \<^verbatim>\<open>CurrentMark\<close> returns the top mark; \<^verbatim>\<open>AppendOutputString\<close>
  appends to the output; \<^verbatim>\<open>Warnf\<close> records a warning. The specification gives no
  behaviour for an empty frame stack or mark stack, nor for the integer view of an
  argument that is not an integer.
\<close>

datatype optype =
    TXOP_noop
  | TXOP_nil
  | TXOP_move_to_sb
  | TXOP_move_from_sb
  | TXOP_literal
  | TXOP_fetch_s
  | TXOP_fetch_field_s
  | TXOP_mark_raw
  | TXOP_unmark_raw
  | TXOP_print
  | TXOP_print_raw
  | TXOP_save_to_lvar
  | TXOP_load_lvar
  | TXOP_add
  | TXOP_sub
  | TXOP_mul
  | TXOP_div
  | TXOP_and
  | TXOP_goto
  | TXOP_for_start
  | TXOP_for_iter
  | TXOP_html_escape
  | TXOP_uri_escape
  | TXOP_eq
  | TXOP_ne
  | TXOP_popmark
  | TXOP_pushmark
  | TXOP_push
  | TXOP_methodcall
  | TXOP_end

datatype 'f op = Op optype "'f val"

fun OpType :: "'f op \<Rightarrow> optype" where
  "OpType (Op t a) = t"

fun Arg :: "'f op \<Rightarrow> 'f val" where
  "Arg (Op t a) = a"


definition ArgString :: "'f host \<Rightarrow> 'f op \<Rightarrow> string" where
  "ArgString h o' = interfaceToString h (Arg o')"

record 'f state =
  opcodes :: "'f op list"
  pc :: int
  sa :: "'f val"
  sb :: "'f val"
  stack :: "'f stack"
  markstack :: "int list"
  frames :: "frame list"
  outbuf :: string
  vars :: "string \<rightharpoonup> 'f val"
  warnings :: "string list"

definition Advance :: "'f state \<Rightarrow> 'f state" where
  "Advance st = st\<lparr>pc := pc st + 1\<rparr>"


definition CurrentOp :: "'f state \<Rightarrow> error + 'f op" where
  "CurrentOp st =
     (if 0 \<le> pc st \<and> pc st < int (length (opcodes st)) then Inr (opcodes st ! nat (pc st))
      else Inl PcOutOfRange)"

definition CurrentFrame :: "'f state \<Rightarrow> error + frame" where
  "CurrentFrame st = (case frames st of [] \<Rightarrow> Inl NotInSpec | f # _ \<Rightarrow> Inr f)"



definition CurrentMark :: "'f state \<Rightarrow> error + int" where
  "CurrentMark st = (case markstack st of [] \<Rightarrow> Inl NotInSpec | m # _ \<Rightarrow> Inr m)"

definition AppendOutputString :: "'f state \<Rightarrow> string \<Rightarrow> 'f state" where
  "AppendOutputString st s = st\<lparr>outbuf := outbuf st @ s\<rparr>"

definition Warnf :: "'f state \<Rightarrow> string \<Rightarrow> 'f state" where
  "Warnf st msg = st\<lparr>warnings := warnings st @ [msg]\<rparr>"


section \<open>Arithmetic operands\<close>

text \<open>
  Modelled from the spec: \<^verbatim>\<open>alignTypesForArithmetic\<close> is not among the source files.
  Section 4.1: both operands are promoted to a common numeric kind along
  \<^verbatim>\<open>int < uint < float\<close>; an operand that is no number is turned into a string and parsed,
  and counts as zero when that fails.
\<close>

definition interfaceToNumeric :: "'f host \<Rightarrow> 'f val \<Rightarrow> 'f num" where
  "interfaceToNumeric h v =
     (case v of
        VInt n \<Rightarrow> NInt n
      | VUint n \<Rightarrow> NUint n
      | VFloat x \<Rightarrow> NFloat x
      | _ \<Rightarrow> (case parse_number h (interfaceToString h v) of Some n \<Rightarrow> n | None \<Rightarrow> NInt 0))"

fun num_rank :: "'f num \<Rightarrow> nat" where
  "num_rank (NInt _) = 0"
| "num_rank (NUint _) = 1"
| "num_rank (NFloat _) = 2"

fun num_to_float :: "'f host \<Rightarrow> 'f num \<Rightarrow> 'f" where
  "num_to_float h (NInt n) = float_of_int h n"
| "num_to_float h (NUint n) = float_of_uint h n"
| "num_to_float h (NFloat x) = x"

fun promote :: "'f host \<Rightarrow> nat \<Rightarrow> 'f num \<Rightarrow> 'f num" where
  "promote h r (NInt n) =
     (if r = 0 then NInt n else if r = 1 then NUint n else NFloat (float_of_int h n))"
| "promote h r (NUint n) = (if r \<le> 1 then NUint n else NFloat (float_of_uint h n))"
| "promote h r (NFloat x) = NFloat x"

definition alignTypesForArithmetic :: "'f host \<Rightarrow> 'f val \<Rightarrow> 'f val \<Rightarrow> 'f num \<times> 'f num" where
  "alignTypesForArithmetic h left right =
     (let leftV = interfaceToNumeric h left; rightV = interfaceToNumeric h right;
          r = max (num_rank leftV) (num_rank rightV)
      in (promote h r leftV, promote h r rightV))"


fun num_Uint :: "'f num \<Rightarrow> error + 64 word" where
  "num_Uint (NUint n) = Inr n"
| "num_Uint _ = Inl ReflectKind"

fun num_Float :: "'f num \<Rightarrow> error + 'f" where
  "num_Float (NFloat x) = Inr x"
| "num_Float _ = Inl ReflectKind"

section \<open>Host value access\<close>

text \<open>
  \<^verbatim>\<open>FieldByName\<close> panics unless the Value it is called on has kind \<^verbatim>\<open>Struct\<close>, and
  returns the zero Value when the struct has no such field; \<^verbatim>\<open>Interface\<close> panics on the
  zero Value. The field list of a record holds its exported fields; \<^verbatim>\<open>reflect.Value\<close>
  has none. The result of \<^verbatim>\<open>FieldByName\<close> is \<open>None\<close> for the zero Value.
\<close>

definition FieldByName :: "kind \<Rightarrow> 'f val \<Rightarrow> string \<Rightarrow> error + 'f val option" where
  "FieldByName k v nm =
     (if k \<noteq> KStruct then Inl ReflectKind
      else Inr (case v of VRecord tn fs \<Rightarrow> map_of fs nm | _ \<Rightarrow> None))"

definition Interface :: "'f val option \<Rightarrow> error + 'f val" where
  "Interface f = (case f of None \<Rightarrow> Inl ReflectZeroValue | Some x \<Rightarrow> Inr x)"

text \<open>
  \<^verbatim>\<open>string(unicode.ToUpper(r)) + name[size:]\<close> for the first rune \<^verbatim>\<open>r\<close> of \<^verbatim>\<open>name\<close>.
  The empty name decodes to the replacement character (bytes EF BF BD) of width 0; an
  ASCII first byte is upper-cased here, any other first rune by the host.
\<close>

definition ascii_upper :: "char \<Rightarrow> char" where
  "ascii_upper c =
     (let n = (of_char c :: nat) in if 97 \<le> n \<and> n \<le> 122 then char_of (n - 32) else c)"

definition upcase_first :: "'f host \<Rightarrow> string \<Rightarrow> string" where
  "upcase_first h nm =
     (case nm of
        [] \<Rightarrow> [char_of (239::nat), char_of (191::nat), char_of (189::nat)]
      | c # cs \<Rightarrow> if (of_char c :: nat) < 128 then ascii_upper c # cs else upper_rune h nm)"

text \<open>
  \<^verbatim>\<open>rawString\<close> declares the method \<^verbatim>\<open>String\<close>; the methods of every other type are
  the host's.
\<close>

definition rawString_String :: "'f go_method" where
  "rawString_String =
     \<lparr>m_NumIn = 1, m_NumOut = 1,
      m_Call = (\<lambda>args. case args of [VRaw s] \<Rightarrow> Inr [VStr s] | _ \<Rightarrow> Inl HostPanic)\<rparr>"

definition MethodByName :: "'f host \<Rightarrow> rtype \<Rightarrow> string \<Rightarrow> 'f go_method option" where
  "MethodByName h t nm =
     (if t = rawStringType then (if nm = ''String'' then Some rawString_String else None)
      else host_methods h t nm)"




section \<open>Opcode handlers\<close>








definition txFetchField :: "'f host \<Rightarrow> 'f state \<Rightarrow> error + 'f state" where
  "txFetchField h st =
     (let container = sa st in
      if container = VNil then Inr (Advance (st\<lparr>sa := VNil\<rparr>))
      else
        let k = (if reflect_Kind container = KPtr \<or> reflect_Kind container = KStruct
                 then reflect_Kind container else KInterface)
        in ethen (CurrentOp st) (\<lambda>o'.
             let nm = upcase_first h (ArgString h o') in
             ethen (FieldByName k container nm) (\<lambda>f.
             ethen (Interface f) (\<lambda>x. Inr (Advance (st\<lparr>sa := x\<rparr>))))))"

definition txMarkRaw :: "'f host \<Rightarrow> 'f state \<Rightarrow> error + 'f state" where
  "txMarkRaw h st =
     ethen (reflect_Type (sa st)) (\<lambda>t.
       Inr (Advance (if t \<noteq> rawStringType
                     then st\<lparr>sa := VRaw (interfaceToString h (sa st))\<rparr>
                     else st)))"

definition txUnmarkRaw :: "'f host \<Rightarrow> 'f state \<Rightarrow> error + 'f state" where
  "txUnmarkRaw h st =
     ethen (reflect_Type (sa st)) (\<lambda>t.
       Inr (Advance (if t = rawStringType
                     then st\<lparr>sa := VStr (interfaceToString h (sa st))\<rparr>
                     else st)))"

definition nil_print_warning :: string where
  "nil_print_warning = ''Use of nil to print'' @ [CHR 0x0A]"

definition txPrint :: "'f host \<Rightarrow> 'f state \<Rightarrow> error + 'f state" where
  "txPrint h st =
     (let arg = sa st in
      if arg = VNil then Inr (Advance (Warnf st nil_print_warning))
      else ethen (reflect_Type (sa st)) (\<lambda>t.
             if t \<noteq> rawStringType
             then Inr (Advance (AppendOutputString st
                                  (html_EscapeString (interfaceToString h arg))))
             else Inr (Advance (AppendOutputString st (interfaceToString h arg)))))"







text \<open>
  In \<^verbatim>\<open>txDiv\<close> the signed case converts both operands to \<^verbatim>\<open>float64\<close> and divides
  there; the unsigned case divides two \<^verbatim>\<open>uint64\<close>, which panics in Go when the divisor
  is zero.
\<close>

definition txDiv :: "'f host \<Rightarrow> 'f state \<Rightarrow> error + 'f state" where
  "txDiv h st =
     (case alignTypesForArithmetic h (sb st) (sa st) of (leftV, rightV) \<Rightarrow>
        (case leftV of
           NInt a \<Rightarrow>
             Inr (Advance (st\<lparr>sa := VFloat (float_div h (num_to_float h leftV)
                                                        (num_to_float h rightV))\<rparr>))
         | NUint a \<Rightarrow>
             ethen (num_Uint rightV) (\<lambda>b.
               if b = 0 then Inl DivideByZero
               else Inr (Advance (st\<lparr>sa := VUint (a div b)\<rparr>)))
         | NFloat x \<Rightarrow>
             ethen (num_Float rightV) (\<lambda>y.
               Inr (Advance (st\<lparr>sa := VFloat (float_div h x y)\<rparr>)))))"












definition arity_warning :: "nat \<Rightarrow> nat \<Rightarrow> string" where
  "arity_warning expected got =
     ''Number of arguments do not match (expected '' @ dec_nat expected @ '', got ''
       @ dec_nat got @ '')''"

text \<open>
  \<^verbatim>\<open>txMethodCall\<close>: the arguments are the stack entries from the current mark up to the
  tip, the invocant being the first of them. \<^verbatim>\<open>make\<close> panics on a negative length, and
  \<^verbatim>\<open>Type()\<close> on a nil invocant.
\<close>

definition txMethodCall :: "'f host \<Rightarrow> 'f state \<Rightarrow> error + 'f state" where
  "txMethodCall h st =
     ethen (CurrentOp st) (\<lambda>o'.
       let nm = interfaceToString h (Arg o') in
       ethen (CurrentMark st) (\<lambda>m.
         let tip = stack_Cur (stack st);
             invocant = stack_Get_nil (stack st) m
         in if tip - m < 0 then Inl MakeSliceLen
            else
              let args = map (stack_Get_nil (stack st)) [m..tip - 1] in
              ethen (reflect_Type invocant) (\<lambda>t.
                case MethodByName h t nm of
                  None \<Rightarrow> Inr (Advance (st\<lparr>sa := VNil\<rparr>))
                | Some meth \<Rightarrow>
                    if m_NumIn meth \<noteq> length args
                    then Inr (Advance ((Warnf st (arity_warning (m_NumIn meth) (length args)))
                                         \<lparr>sa := VNil\<rparr>))
                    else ethen (m_Call meth args) (\<lambda>ret.
                           if m_NumOut meth = 0 then Inr (Advance (st\<lparr>sa := VStr []\<rparr>))
                           else (case ret of
                                   [] \<Rightarrow> Inl IndexOutOfRange
                                 | r # _ \<Rightarrow> Inr (Advance (st\<lparr>sa := r\<rparr>)))))))"


section \<open>Fresh states and a concrete host\<close>

text \<open>
  Modelled from the spec: the constructors of \<^verbatim>\<open>Stack\<close> and \<^verbatim>\<open>State\<close> are not among
  the source files. Section 3: a state is built for each render with the bytecode, the
  variable bag, an empty output buffer, the program counter 0, one frame with mark 0, and
  empty mark and operand stacks; the capacity of the stack is a parameter.
\<close>

definition NewStack :: "nat \<Rightarrow> 'f stack" where
  "NewStack n = \<lparr>data = replicate n VNil, cur = 0\<rparr>"

definition NewState :: "'f op list \<Rightarrow> (string \<rightharpoonup> 'f val) \<Rightarrow> nat \<Rightarrow> 'f state" where
  "NewState bc vs n =
     \<lparr>opcodes = bc, pc = 0, sa = VNil, sb = VNil, stack = NewStack n, markstack = [],
      frames = [NewFrame], outbuf = [], vars = vs, warnings = []\<rparr>"

text \<open>
  A host on which the handlers run on concrete inputs. Its floats are the rationals with
  exact arithmetic, it renders nothing in detail, and it knows one record type,
  \<^verbatim>\<open>User\<close>, with one method \<^verbatim>\<open>Name\<close> that takes the receiver only.
\<close>

definition sample_host :: "rat host" where
  "sample_host =
     \<lparr>float_of_int = (\<lambda>w. of_int (sint w)),
      float_of_uint = (\<lambda>w. of_nat (unat w)),
      float_add = (+), float_sub = (-), float_mul = (*), float_div = (/),
      float_eq = (=), float_is_zero = (\<lambda>x. x = 0),
      float_format = (\<lambda>x. ''float''),
      parse_number = (\<lambda>s. None),
      host_string = (\<lambda>v. ''value''),
      upper_rune = (\<lambda>s. s),
      host_methods = (\<lambda>t nm. if t = TStruct ''User'' \<and> nm = ''Name''
                               then Some \<lparr>m_NumIn = 1, m_NumOut = 1,
                                          m_Call = (\<lambda>args. Inr [VStr ''Ada<>''])\<rparr>
                               else None),
      host_eq = (\<lambda>a b. Inr (a = b))\<rparr>"

text \<open>
  The state in which \<^verbatim>\<open>methodcall nm\<close> runs after \<^verbatim>\<open>pushmark\<close> on an empty stack and
  \<open>tip\<close> pushes, the first of them a \<^verbatim>\<open>User\<close> record.
\<close>

definition methodcall_state :: "string \<Rightarrow> int \<Rightarrow> rat state" where
  "methodcall_state nm tip =
     (NewState [Op TXOP_methodcall (VStr nm)] Map.empty 4)
       \<lparr>sa := VInt 7,
        stack := \<lparr>data = [VRecord ''User'' [(''Name'', VStr ''Ada'')], VInt 7, VNil, VNil],
                  cur = tip\<rparr>,
        markstack := [0]\<rparr>"

text \<open>A state with one operation and a given value in register SA and in register SB.\<close>

definition one_op_state :: "rat op \<Rightarrow> rat val \<Rightarrow> rat val \<Rightarrow> rat state" where
  "one_op_state o' a b = (NewState [o'] Map.empty 4)\<lparr>sa := a, sb := b\<rparr>"

section \<open>Properties\<close>

subsection \<open>Auxiliary facts\<close>























lemmas state_eval =
  NewState_def NewStack_def NewFrame_def one_op_state_def methodcall_state_def
  CurrentOp_def CurrentFrame_def CurrentMark_def Advance_def Warnf_def
  AppendOutputString_def ethen_def Let_def reflect_Type_def rawStringType_def

lemmas stack_eval =
  GetLvar_def SetLvar_def stack_Get_def stack_Get_nil_def stack_Set_def stack_Cur_def

lemmas char_eval = char_of_def bit_Suc_0_iff

subsection \<open>Local variables of a frame\<close>

text \<open>
  Claim C1: for a frame with mark \<open>m\<close>, \<^verbatim>\<open>GetLvar(i)\<close> returns the stack entry at the
  absolute index \<open>m + i\<close> and \<^verbatim>\<open>SetLvar(i, v)\<close> writes there. The code subtracts the
  mark instead: with mark 1 on a stack of four entries, \<^verbatim>\<open>GetLvar(2)\<close> returns the
  entry at index 1 and \<^verbatim>\<open>SetLvar(2, v)\<close> overwrites it, while the entry at index
  \<open>1 + 2\<close> is another one and stays as it was.
\<close>

theorem GetLvar_SetLvar_subtract_mark:
  "GetLvar (SetMark NewFrame 1)
     \<lparr>data = [VInt 10, VInt 11, VInt 12, VInt 13 :: rat val], cur = 4\<rparr> 2
     = VInt 11
   \<and> SetLvar (SetMark NewFrame 1)
       \<lparr>data = [VInt 10, VInt 11, VInt 12, VInt 13 :: rat val], cur = 4\<rparr> 2 (VInt 99)
     = Inr \<lparr>data = [VInt 10, VInt 99, VInt 12, VInt 13], cur = 4\<rparr>
   \<and> stack_Get \<lparr>data = [VInt 10, VInt 11, VInt 12, VInt 13 :: rat val], cur = 4\<rparr>
       (mark (SetMark NewFrame 1) + 2)
     = Inr (VInt 13)"
  by (simp add: stack_eval SetMark_def NewFrame_def)

subsection \<open>Printing\<close>

text \<open>
  Claim C2: \<^verbatim>\<open>print\<close> always completes and advances the program counter by one. When
  SA is nil it appends nothing to the output and records one warning; when SA is a raw
  string it appends \<open>interfaceToString\<close> of it unescaped; for every other value it
  appends the HTML-escaped \<open>interfaceToString\<close> of it. In the last two cases no
  warning is recorded, and nothing else of the state changes.
\<close>

theorem txPrint_output:
  "txPrint h st =
     Inr (st\<lparr>pc := pc st + 1,
             outbuf := outbuf st @ (case sa st of
                                      VNil \<Rightarrow> []
                                    | VRaw s \<Rightarrow> interfaceToString h (VRaw s)
                                    | v \<Rightarrow> html_EscapeString (interfaceToString h v)),
             warnings := warnings st @ (if sa st = VNil then [nil_print_warning] else [])\<rparr>)"
  by (cases "sa st")
     (simp_all add: txPrint_def ethen_def reflect_Type_def rawStringType_def Advance_def
        Warnf_def AppendOutputString_def)

text \<open>
  The three cases on concrete states: a string with markup is escaped, a raw string is
  copied, nil leaves the output empty and warns.
\<close>

theorem txPrint_output_witness:
  "txPrint sample_host (one_op_state (Op TXOP_print VNil) (VStr ''<a&b>'') VNil)
     = Inr ((one_op_state (Op TXOP_print VNil) (VStr ''<a&b>'') VNil)
              \<lparr>pc := 1, outbuf := ''&lt;a&amp;b&gt;'', warnings := []\<rparr>)
   \<and> txPrint sample_host (one_op_state (Op TXOP_print VNil) (VRaw ''<b>'') VNil)
     = Inr ((one_op_state (Op TXOP_print VNil) (VRaw ''<b>'') VNil)
              \<lparr>pc := 1, outbuf := ''<b>'', warnings := []\<rparr>)
   \<and> txPrint sample_host (one_op_state (Op TXOP_print VNil) VNil VNil)
     = Inr ((one_op_state (Op TXOP_print VNil) VNil VNil)
              \<lparr>pc := 1, outbuf := [], warnings := [nil_print_warning]\<rparr>)"
  using txPrint_output [of sample_host "one_op_state (Op TXOP_print VNil) (VStr ''<a&b>'') VNil"]
    txPrint_output [of sample_host "one_op_state (Op TXOP_print VNil) (VRaw ''<b>'') VNil"]
    txPrint_output [of sample_host "one_op_state (Op TXOP_print VNil) VNil VNil"]
  by (simp add: one_op_state_def NewState_def html_EscapeString_def html_escape_char_def)

subsection \<open>Method calls and field access on host values\<close>

text \<open>
  Claim C3: when \<^verbatim>\<open>methodcall\<close> finds no method of the given name on the invocant's
  type, the VM records a warning and sets SA to nil. The code sets SA to nil and records
  nothing: on a \<^verbatim>\<open>User\<close> record, which has no method \<^verbatim>\<open>Missing\<close>, the handler returns
  the state with SA nil and the program counter advanced, its warning sink still empty.
  (The branch for a wrong number of arguments, next to it, does record a warning.)
\<close>

theorem txMethodCall_missing_method_no_warning:
  "txMethodCall sample_host (methodcall_state ''Missing'' 1)
     = Inr ((methodcall_state ''Missing'' 1)\<lparr>sa := VNil, pc := 1\<rparr>)
   \<and> warnings (methodcall_state ''Missing'' 1) = []
   \<and> MethodByName sample_host (TStruct ''User'') ''Missing'' = None"
  by (simp add: txMethodCall_def state_eval stack_eval MethodByName_def sample_host_def)

text \<open>
  Claim C4: when the record in SA has no field of the requested name (first rune in upper
  case), \<^verbatim>\<open>fetch_field_s\<close> records a warning, sets SA to nil and does not abort. The
  code aborts: \<^verbatim>\<open>FieldByName\<close> returns the zero Value and \<^verbatim>\<open>Interface\<close> panics on it.
  On a record whose only field is \<^verbatim>\<open>Name\<close>, the argument \<^verbatim>\<open>age\<close> aborts the handler,
  while the argument \<^verbatim>\<open>name\<close> fetches the field.
\<close>

theorem txFetchField_missing_field_aborts:
  "txFetchField sample_host
     (one_op_state (Op TXOP_fetch_field_s (VStr ''age''))
        (VRecord ''User'' [(''Name'', VStr ''Ada'')]) VNil)
     = Inl ReflectZeroValue
   \<and> txFetchField sample_host
     (one_op_state (Op TXOP_fetch_field_s (VStr ''name''))
        (VRecord ''User'' [(''Name'', VStr ''Ada'')]) VNil)
     = Inr ((one_op_state (Op TXOP_fetch_field_s (VStr ''name''))
              (VRecord ''User'' [(''Name'', VStr ''Ada'')]) VNil)
              \<lparr>sa := VStr ''Ada'', pc := 1\<rparr>)"
  by (simp add: txFetchField_def state_eval FieldByName_def Interface_def upcase_first_def
        ascii_upper_def ArgString_def char_eval)

subsection \<open>The raw-string mark\<close>

text \<open>
  Claim C5: for every non-nil value in SA, \<^verbatim>\<open>mark_raw\<close> followed by \<^verbatim>\<open>unmark_raw\<close>
  completes and leaves in SA the plain string \<open>interfaceToString\<close> of that value; the
  program counter has advanced by two and nothing else has changed.
\<close>

theorem mark_raw_unmark_raw_stringifies:
  "sa st \<noteq> VNil \<Longrightarrow>
   ethen (txMarkRaw h st) (txUnmarkRaw h) =
     Inr (st\<lparr>sa := VStr (interfaceToString h (sa st)), pc := pc st + 2\<rparr>)"
  by (cases "sa st")
     (simp_all add: txMarkRaw_def txUnmarkRaw_def ethen_def reflect_Type_def rawStringType_def
        Advance_def)

text \<open>With the integer \<open>-42\<close> in SA the pair leaves the string \<^verbatim>\<open>-42\<close>.\<close>

theorem mark_raw_unmark_raw_stringifies_witness:
  "sa (one_op_state (Op TXOP_mark_raw VNil) (VInt (- 42)) VNil) \<noteq> VNil
   \<and> ethen (txMarkRaw sample_host (one_op_state (Op TXOP_mark_raw VNil) (VInt (- 42)) VNil))
        (txUnmarkRaw sample_host)
     = Inr ((one_op_state (Op TXOP_mark_raw VNil) (VInt (- 42)) VNil)
              \<lparr>sa := VStr ''-42'', pc := 2\<rparr>)"
proof -
  have h: "sa (one_op_state (Op TXOP_mark_raw VNil) (VInt (- 42)) VNil) \<noteq> VNil"
    by (simp add: one_op_state_def)
  show ?thesis
    using h mark_raw_unmark_raw_stringifies [OF h, of sample_host]
    by (simp add: one_op_state_def NewState_def dec_int_def dec_nat.simps char_eval)
qed

subsection \<open>The program counter\<close>




subsection \<open>The start of a loop\<close>



subsection \<open>Division\<close>

text \<open>
  Claim C8, as amended: \<^verbatim>\<open>div\<close> on two signed integers converts both to floats and
  sets SA to their float quotient; on two unsigned integers with a divisor other than
  zero it sets SA to their unsigned quotient, an unsigned value. In both cases the
  program counter advances by one and nothing else changes.
\<close>

theorem txDiv_kinds:
  "(sb st = VInt a \<and> sa st = VInt b \<longrightarrow>
      txDiv h st = Inr (st\<lparr>sa := VFloat (float_div h (float_of_int h a) (float_of_int h b)),
                          pc := pc st + 1\<rparr>))
   \<and> (sb st = VUint a \<and> sa st = VUint b \<and> b \<noteq> 0 \<longrightarrow>
      txDiv h st = Inr (st\<lparr>sa := VUint (a div b), pc := pc st + 1\<rparr>))"
  by (simp add: txDiv_def alignTypesForArithmetic_def interfaceToNumeric_def ethen_def
        Advance_def)

text \<open>
  The claim as first stated, for every pair of operands, fails for the unsigned
  operands 1 and 0: the division of two \<^verbatim>\<open>uint64\<close> by zero panics, and SA receives no
  quotient.
\<close>

theorem txDiv_kinds_counterexample:
  "txDiv sample_host (one_op_state (Op TXOP_div VNil) (VUint 0) (VUint 1)) = Inl DivideByZero"
  by (simp add: txDiv_def alignTypesForArithmetic_def interfaceToNumeric_def ethen_def
        one_op_state_def NewState_def)

text \<open>
  Seven divided by two: as signed integers the result is the float \<open>7 / 2\<close> of the
  sample host, as unsigned integers it is the unsigned 3.
\<close>

theorem txDiv_kinds_witness:
  "sb (one_op_state (Op TXOP_div VNil) (VInt 2) (VInt 7)) = VInt 7
   \<and> sa (one_op_state (Op TXOP_div VNil) (VInt 2) (VInt 7)) = VInt 2
   \<and> txDiv sample_host (one_op_state (Op TXOP_div VNil) (VInt 2) (VInt 7))
       = Inr ((one_op_state (Op TXOP_div VNil) (VInt 2) (VInt 7))
                \<lparr>sa := VFloat (7 / 2), pc := 1\<rparr>)
   \<and> sb (one_op_state (Op TXOP_div VNil) (VUint 2) (VUint 7)) = VUint 7
   \<and> sa (one_op_state (Op TXOP_div VNil) (VUint 2) (VUint 7)) = VUint 2
   \<and> (2 :: 64 word) \<noteq> 0
   \<and> txDiv sample_host (one_op_state (Op TXOP_div VNil) (VUint 2) (VUint 7))
       = Inr ((one_op_state (Op TXOP_div VNil) (VUint 2) (VUint 7))
                \<lparr>sa := VUint 3, pc := 1\<rparr>)"
proof -
  let ?si = "one_op_state (Op TXOP_div VNil) (VInt 2) (VInt 7)"
  let ?su = "one_op_state (Op TXOP_div VNil) (VUint 2) (VUint 7)"
  have i: "sb ?si = VInt 7 \<and> sa ?si = VInt 2"
    by (simp add: one_op_state_def)
  have u: "sb ?su = VUint 7 \<and> sa ?su = VUint 2 \<and> (2 :: 64 word) \<noteq> 0"
    by (simp add: one_op_state_def)
  have "txDiv sample_host ?si = Inr (?si\<lparr>sa := VFloat (7 / 2), pc := 1\<rparr>)"
    using i txDiv_kinds [of ?si 7 2 sample_host]
    by (simp add: sample_host_def one_op_state_def NewState_def)
  moreover have "txDiv sample_host ?su = Inr (?su\<lparr>sa := VUint 3, pc := 1\<rparr>)"
  proof -
    have q: "(7 :: 64 word) div 2 = 3"
      by (simp add: word_div_def)
    show ?thesis
      using u txDiv_kinds [of ?su 7 2 sample_host]
      by (simp add: q one_op_state_def NewState_def)
  qed
  ultimately show ?thesis using i u by blast
qed

subsection \<open>What a method call writes\<close>




subsection \<open>The raw-string handlers on nil\<close>

text \<open>
  Claim C10: \<^verbatim>\<open>mark_raw\<close> and \<^verbatim>\<open>unmark_raw\<close> inspect the dynamic type of SA without a
  nil check. With nil in SA both abort in that inspection (\<^verbatim>\<open>Type()\<close> on the zero
  Value), with any other value both complete; \<open>interfaceToString\<close>, in contrast, turns
  nil into the empty string.
\<close>

theorem raw_mark_handlers_total_iff_non_nil:
  "(sa st = VNil \<longrightarrow>
      txMarkRaw h st = Inl ReflectZeroValue \<and> txUnmarkRaw h st = Inl ReflectZeroValue)
   \<and> (sa st \<noteq> VNil \<longrightarrow>
      (\<exists>st'. txMarkRaw h st = Inr st') \<and> (\<exists>st'. txUnmarkRaw h st = Inr st'))
   \<and> interfaceToString h VNil = []"
  by (cases "sa st")
     (simp_all add: txMarkRaw_def txUnmarkRaw_def ethen_def reflect_Type_def)

text \<open>Both handlers on a state with nil in SA and on one with a string in SA.\<close>

theorem raw_mark_handlers_total_iff_non_nil_witness:
  "sa (one_op_state (Op TXOP_mark_raw VNil) VNil VNil) = VNil
   \<and> txMarkRaw sample_host (one_op_state (Op TXOP_mark_raw VNil) VNil VNil)
       = Inl ReflectZeroValue
   \<and> txUnmarkRaw sample_host (one_op_state (Op TXOP_mark_raw VNil) VNil VNil)
       = Inl ReflectZeroValue
   \<and> sa (one_op_state (Op TXOP_mark_raw VNil) (VStr ''<b>'') VNil) \<noteq> VNil
   \<and> (\<exists>st'. txMarkRaw sample_host (one_op_state (Op TXOP_mark_raw VNil) (VStr ''<b>'') VNil)
              = Inr st')
   \<and> (\<exists>st'. txUnmarkRaw sample_host (one_op_state (Op TXOP_mark_raw VNil) (VStr ''<b>'') VNil)
              = Inr st')
   \<and> interfaceToString sample_host VNil = []"
proof -
  let ?n = "one_op_state (Op TXOP_mark_raw VNil) VNil VNil"
  let ?s = "one_op_state (Op TXOP_mark_raw VNil) (VStr ''<b>'') VNil"
  have n: "sa ?n = VNil" by (simp add: one_op_state_def)
  have s: "sa ?s \<noteq> VNil" by (simp add: one_op_state_def)
  show ?thesis
    using n s raw_mark_handlers_total_iff_non_nil [of ?n sample_host]
      raw_mark_handlers_total_iff_non_nil [of ?s sample_host]
    by blast
qed

end
